theory Spec2Isabelle
  imports Main
begin

section \<open>Client session state of the replication core (src/src/client_state.cpp)\<close>

text \<open>
  The theory embeds \<^verbatim>\<open>wsrep::client_state\<close> as it is written in
  \<^verbatim>\<open>src/src/client_state.cpp\<close>. The object is a record, every member function
  takes the record and returns an outcome together with the record as the call left it.
  A C++ exception and a failed \<^verbatim>\<open>assert\<close> are values of type \<open>fault\<close>; the record
  returned beside a fault is the object at the moment the fault was raised.
  The classes the file only calls (transaction, client service, provider, server state)
  are parameters, collected in the record \<open>env\<close>. Logging (\<^verbatim>\<open>debug_log_state\<close>) has
  no effect on the object and is left out; taking and dropping the mutex is not modelled,
  one hook runs at a time. \<^verbatim>\<open>enable_streaming\<close> works on the streaming context of the
  transaction only and is not part of the embedding. A data member \<^verbatim>\<open>x_\<close> of the class is the field \<open>cs_x\<close> of
  the record.
\<close>

subsection \<open>Enumerations\<close>

text \<open>
  Modelled from the spec: the header \<^verbatim>\<open>wsrep/client_state.hpp\<close> that declares the
  enumerations \<^verbatim>\<open>state\<close>, \<^verbatim>\<open>mode\<close> and \<^verbatim>\<open>client_error\<close> is missing. The enumerators and
  their order are those of the comments of the two \<^verbatim>\<open>allowed\<close> tables and of
  sections 4.4 and 7 of the specification.
\<close>

datatype state = s_none | s_idle | s_exec | s_result | s_quitting

datatype mode = m_local | m_replicating | m_high_priority | m_toi

datatype client_error =
    e_success
  | e_deadlock_error
  | e_interrupted_error
  | e_size_exceeded_error
  | e_append_fragment_error
  | e_error_during_commit

datatype after_statement_result = asr_success | asr_error | asr_may_retry

text \<open>
  Modelled from the spec: \<^verbatim>\<open>wsrep/transaction.hpp\<close> is missing. The source names the
  substates \<^verbatim>\<open>s_executing\<close>, \<^verbatim>\<open>s_must_abort\<close>, \<^verbatim>\<open>s_aborting\<close> and \<^verbatim>\<open>s_aborted\<close>; the other
  constructors stand for the certify, commit and replay phases of section 1, which no
  function of this file tells apart.
\<close>

datatype transaction_state =
    s_executing
  | s_preparing
  | s_certifying
  | s_committing
  | s_ordered_commit
  | s_committed
  | s_cert_failed
  | s_must_abort
  | s_aborting
  | s_aborted
  | s_must_replay
  | s_replaying

text \<open>\<^verbatim>\<open>wsrep::server_state::rollback_mode\<close> (src/include/wsrep/server_state.hpp).\<close>

datatype rollback_mode = rm_async | rm_sync

text \<open>
  Modelled from the spec: \<^verbatim>\<open>wsrep/provider.hpp\<close> is missing; the status values are those
  listed in section 7. The source only tells \<^verbatim>\<open>success\<close> from the rest.
\<close>

datatype provider_status =
    success
  | warning
  | trx_missing
  | cert_failed
  | bf_abort
  | size_exceeded
  | connection_failed
  | not_allowed
  | fatal

subsection \<open>The object and its collaborators\<close>

type_synonym thread_id = nat
type_synonym client_id = nat

record ('tx, 'm) client_state =
  cs_owning_thread_id :: thread_id
  cs_current_thread_id :: thread_id
  cs_id :: client_id
  cs_state :: state
  cs_mode :: mode
  cs_transaction :: 'tx
  cs_toi_meta :: 'm
  cs_toi_mode :: mode
  cs_current_error :: client_error

text \<open>
  The collaborators. \<open>'tx\<close> is the transaction object, \<open>'m\<close> the write-set meta data,
  \<open>'k\<close> a key array and \<open>'b\<close> a buffer. \<open>trx_after_statement\<close> is
  \<^verbatim>\<open>transaction_.after_statement()\<close> and \<open>client_rollback\<close> is
  \<^verbatim>\<open>client_service_.rollback()\<close>: both reach the session object (the transaction
  class calls \<^verbatim>\<open>override_error\<close>), so they map the whole record; their integer results
  are discarded by every caller. \<open>provider_enter_toi\<close> receives \<^verbatim>\<open>toi_meta_\<close> by
  reference and returns what it left there. \<open>ws_meta_init\<close> is the value of
  \<^verbatim>\<open>wsrep::ws_meta()\<close>. \<open>ndebug\<close> tells whether the build defines \<^verbatim>\<open>NDEBUG\<close>, in
  which case \<^verbatim>\<open>assert\<close> checks nothing.
\<close>

record ('tx, 'm, 'k, 'b) env =
  ndebug :: bool
  rollback_mode :: rollback_mode
  trx_active :: "'tx \<Rightarrow> bool"
  trx_state :: "'tx \<Rightarrow> transaction_state"
  trx_after_statement :: "('tx, 'm) client_state \<Rightarrow> ('tx, 'm) client_state"
  client_rollback :: "('tx, 'm) client_state \<Rightarrow> ('tx, 'm) client_state"
  is_autocommit :: bool
  provider_enter_toi :: "client_id \<Rightarrow> 'k \<Rightarrow> 'b \<Rightarrow> 'm \<Rightarrow> int \<Rightarrow> provider_status \<times> 'm"
  provider_leave_toi :: "client_id \<Rightarrow> provider_status"
  ws_meta_init :: 'm

datatype fault = runtime_error string | assertion_failure

type_synonym 'a result = "fault + 'a"

text \<open>\<^verbatim>\<open>assert(b)\<close> passes when the build has no assertions or \<open>b\<close> holds.\<close>

definition assert_holds :: "('tx, 'm, 'k, 'b) env \<Rightarrow> bool \<Rightarrow> bool" where
  "assert_holds env b = (ndebug env \<or> b)"

subsection \<open>The transition tables\<close>

fun state_index :: "state \<Rightarrow> nat" where
  "state_index s_none = 0"
| "state_index s_idle = 1"
| "state_index s_exec = 2"
| "state_index s_result = 3"
| "state_index s_quitting = 4"

fun mode_index :: "mode \<Rightarrow> nat" where
  "mode_index m_local = 0"
| "mode_index m_replicating = 1"
| "mode_index m_high_priority = 2"
| "mode_index m_toi = 3"

definition state_allowed :: "nat list list" where
  "state_allowed =
     [ [0, 1, 0, 0, 0],
       [0, 0, 1, 0, 1],
       [0, 0, 0, 1, 0],
       [0, 1, 0, 0, 0],
       [1, 0, 0, 0, 0] ]"

definition mode_allowed :: "nat list list" where
  "mode_allowed =
     [ [0, 0, 0, 0],
       [0, 0, 1, 1],
       [0, 1, 0, 1],
       [0, 1, 1, 0] ]"

text \<open>An enumerator written to a stream is printed as its integer value.\<close>

definition show_enum :: "nat \<Rightarrow> string" where
  "show_enum n = [''0123456789'' ! n]"

definition unallowed_state_msg :: "state \<Rightarrow> state \<Rightarrow> string" where
  "unallowed_state_msg from to =
     ''client_state: Unallowed state transition: '' @ show_enum (state_index from)
       @ '' -> '' @ show_enum (state_index to)"

definition unallowed_mode_msg :: "mode \<Rightarrow> mode \<Rightarrow> string" where
  "unallowed_mode_msg from to =
     ''client_state: Unallowed mode transition: '' @ show_enum (mode_index from)
       @ '' -> '' @ show_enum (mode_index to)"

text \<open>
  \<^verbatim>\<open>client_state::state(lock, state)\<close>. \<open>this_thread\<close> is the calling thread and
  \<open>owns_lock\<close> the value of \<^verbatim>\<open>lock.owns_lock()\<close>.
\<close>

definition state ::
  "('tx, 'm, 'k, 'b) env \<Rightarrow> thread_id \<Rightarrow> bool \<Rightarrow> ('tx, 'm) client_state \<Rightarrow> state
     \<Rightarrow> unit result \<times> ('tx, 'm) client_state" where
  "state env this_thread owns_lock c s =
     (if \<not> assert_holds env (this_thread = cs_owning_thread_id c) then (Inl assertion_failure, c)
      else if \<not> assert_holds env owns_lock then (Inl assertion_failure, c)
      else if state_allowed ! state_index (cs_state c) ! state_index s \<noteq> 0
        then (Inr (), c\<lparr>cs_state := s\<rparr>)
      else (Inl (runtime_error (unallowed_state_msg (cs_state c) s)), c))"

text \<open>\<^verbatim>\<open>client_state::mode(lock, mode)\<close>.\<close>

definition mode ::
  "('tx, 'm, 'k, 'b) env \<Rightarrow> bool \<Rightarrow> ('tx, 'm) client_state \<Rightarrow> mode
     \<Rightarrow> unit result \<times> ('tx, 'm) client_state" where
  "mode env owns_lock c m =
     (if \<not> assert_holds env owns_lock then (Inl assertion_failure, c)
      else if mode_allowed ! mode_index (cs_mode c) ! mode_index m \<noteq> 0
        then (Inr (), c\<lparr>cs_mode := m\<rparr>)
      else (Inl (runtime_error (unallowed_mode_msg (cs_mode c) m)), c))"


subsection \<open>Sequencing\<close>

text \<open>
  A statement that raised ends the function: the fault and the object as it was then
  are the outcome. Otherwise the rest of the function runs on the returned object.
\<close>

definition and_then ::
  "'a result \<times> 's \<Rightarrow> ('a \<Rightarrow> 's \<Rightarrow> 'b result \<times> 's) \<Rightarrow> 'b result \<times> 's" where
  "and_then r f = (case r of (Inl e, s) \<Rightarrow> (Inl e, s) | (Inr a, s) \<Rightarrow> f a s)"

subsection \<open>Opening and closing the session\<close>

text \<open>\<^verbatim>\<open>client_state::open(id)\<close> (\<open>open\<close> is a keyword of Isabelle).\<close>

definition open_session ::
  "('tx, 'm, 'k, 'b) env \<Rightarrow> thread_id \<Rightarrow> ('tx, 'm) client_state \<Rightarrow> client_id
     \<Rightarrow> unit result \<times> ('tx, 'm) client_state" where
  "open_session env this_thread c cid =
     (let c1 = c\<lparr>cs_owning_thread_id := this_thread\<rparr>;
          c2 = c1\<lparr>cs_current_thread_id := cs_owning_thread_id c1\<rparr>
      in and_then (state env this_thread True c2 s_idle)
           (\<lambda>_ c3. (Inr (), c3\<lparr>cs_id := cid\<rparr>)))"

text \<open>\<^verbatim>\<open>client_state::close()\<close>.\<close>

definition close ::
  "('tx, 'm, 'k, 'b) env \<Rightarrow> thread_id \<Rightarrow> ('tx, 'm) client_state
     \<Rightarrow> unit result \<times> ('tx, 'm) client_state" where
  "close env this_thread c =
     and_then (state env this_thread True c s_quitting)
       (\<lambda>_ c1. if trx_active env (cs_transaction c1)
                then (Inr (), client_rollback env c1)
                else (Inr (), c1))"

text \<open>\<^verbatim>\<open>client_state::cleanup()\<close>.\<close>

definition cleanup ::
  "('tx, 'm, 'k, 'b) env \<Rightarrow> thread_id \<Rightarrow> ('tx, 'm) client_state
     \<Rightarrow> unit result \<times> ('tx, 'm) client_state" where
  "cleanup env this_thread c = state env this_thread True c s_none"

text \<open>\<^verbatim>\<open>client_state::override_error(error)\<close>.\<close>

definition override_error ::
  "('tx, 'm, 'k, 'b) env \<Rightarrow> thread_id \<Rightarrow> ('tx, 'm) client_state \<Rightarrow> client_error
     \<Rightarrow> unit result \<times> ('tx, 'm) client_state" where
  "override_error env this_thread c err =
     (if \<not> assert_holds env (this_thread = cs_owning_thread_id c) then (Inl assertion_failure, c)
      else if cs_current_error c \<noteq> e_success \<and> err = e_success
        then (Inl (runtime_error ''Overriding error with success''), c)
      else (Inr (), c\<lparr>cs_current_error := err\<rparr>))"

subsection \<open>The command hooks\<close>

text \<open>
  The loop of \<^verbatim>\<open>before_command\<close>,
  \<^verbatim>\<open>while (transaction_.state() == wsrep::transaction::s_aborting) { }\<close>:
  its body is empty (the wait on the condition variable is commented out), so every
  round reads the same transaction. \<open>None\<close> is the loop that never ends.
\<close>

partial_function (option) before_command_wait ::
  "('tx, 'm, 'k, 'b) env \<Rightarrow> ('tx, 'm) client_state \<Rightarrow> ('tx, 'm) client_state option" where
  "before_command_wait env c =
     (if trx_state env (cs_transaction c) = s_aborting
      then before_command_wait env c
      else Some c)"

text \<open>\<^verbatim>\<open>before_command\<close> from the call \<^verbatim>\<open>state(lock, s_exec)\<close> to its end.\<close>

definition before_command_exec ::
  "('tx, 'm, 'k, 'b) env \<Rightarrow> thread_id \<Rightarrow> ('tx, 'm) client_state
     \<Rightarrow> int result \<times> ('tx, 'm) client_state" where
  "before_command_exec env this_thread c =
     and_then (state env this_thread True c s_exec) (\<lambda>_ c1.
       if \<not> assert_holds env
            (trx_active env (cs_transaction c1) = False \<or>
             (trx_state env (cs_transaction c1) = s_executing \<or>
              trx_state env (cs_transaction c1) = s_aborted \<or>
              (trx_state env (cs_transaction c1) = s_must_abort \<and>
               rollback_mode env = rm_async)))
         then (Inl assertion_failure, c1)
       else if trx_active env (cs_transaction c1) then
         (if trx_state env (cs_transaction c1) = s_must_abort then
            (if \<not> assert_holds env (rollback_mode env = rm_async)
               then (Inl assertion_failure, c1)
             else and_then (override_error env this_thread c1 e_deadlock_error) (\<lambda>_ c2.
               let c3 = client_rollback env c2;
                   c4 = trx_after_statement env c3
               in if \<not> assert_holds env (trx_state env (cs_transaction c4) = s_aborted)
                    then (Inl assertion_failure, c4)
                  else if \<not> assert_holds env (trx_active env (cs_transaction c4) = False)
                    then (Inl assertion_failure, c4)
                  else if \<not> assert_holds env (cs_current_error c4 \<noteq> e_success)
                    then (Inl assertion_failure, c4)
                  else (Inr 1, c4)))
          else if trx_state env (cs_transaction c1) = s_aborted then
            and_then (override_error env this_thread c1 e_deadlock_error) (\<lambda>_ c2.
              let c3 = trx_after_statement env c2
              in if \<not> assert_holds env (trx_active env (cs_transaction c3) = False)
                   then (Inl assertion_failure, c3)
                 else (Inr 1, c3))
          else (Inr 0, c1))
       else (Inr 0, c1))"

text \<open>
  \<^verbatim>\<open>client_state::before_command()\<close>. The result is \<open>None\<close> when the call does not
  return.
\<close>

definition before_command ::
  "('tx, 'm, 'k, 'b) env \<Rightarrow> thread_id \<Rightarrow> ('tx, 'm) client_state
     \<Rightarrow> (int result \<times> ('tx, 'm) client_state) option" where
  "before_command env this_thread c =
     (if \<not> assert_holds env (cs_state c = s_idle) then Some (Inl assertion_failure, c)
      else if rollback_mode env = rm_sync then
        (case before_command_wait env c of
           None \<Rightarrow> None
         | Some c0 \<Rightarrow> Some (before_command_exec env this_thread c0))
      else Some (before_command_exec env this_thread c))"

text \<open>\<^verbatim>\<open>client_state::after_command_before_result()\<close>.\<close>

definition after_command_before_result ::
  "('tx, 'm, 'k, 'b) env \<Rightarrow> thread_id \<Rightarrow> ('tx, 'm) client_state
     \<Rightarrow> unit result \<times> ('tx, 'm) client_state" where
  "after_command_before_result env this_thread c =
     (if \<not> assert_holds env (cs_state c = s_exec) then (Inl assertion_failure, c)
      else and_then
        (if trx_active env (cs_transaction c) \<and>
            trx_state env (cs_transaction c) = s_must_abort
         then and_then (override_error env this_thread c e_deadlock_error) (\<lambda>_ c1.
           let c2 = client_rollback env c1;
               c3 = trx_after_statement env c2
           in if \<not> assert_holds env (trx_state env (cs_transaction c3) = s_aborted)
                then (Inl assertion_failure, c3)
              else if \<not> assert_holds env (cs_current_error c3 \<noteq> e_success)
                then (Inl assertion_failure, c3)
              else (Inr (), c3))
         else (Inr (), c))
        (\<lambda>_ c4. state env this_thread True c4 s_result))"

text \<open>\<^verbatim>\<open>client_state::after_command_after_result()\<close>.\<close>

definition after_command_after_result ::
  "('tx, 'm, 'k, 'b) env \<Rightarrow> thread_id \<Rightarrow> ('tx, 'm) client_state
     \<Rightarrow> unit result \<times> ('tx, 'm) client_state" where
  "after_command_after_result env this_thread c =
     (if \<not> assert_holds env (cs_state c = s_result) then (Inl assertion_failure, c)
      else if \<not> assert_holds env (trx_state env (cs_transaction c) \<noteq> s_aborting)
        then (Inl assertion_failure, c)
      else and_then
        (if trx_active env (cs_transaction c) \<and>
            trx_state env (cs_transaction c) = s_must_abort
         then
           (let c1 = client_rollback env c
            in if \<not> assert_holds env (trx_state env (cs_transaction c1) = s_aborted)
                 then (Inl assertion_failure, c1)
               else override_error env this_thread c1 e_deadlock_error)
         else if trx_active env (cs_transaction c) = False
           then (Inr (), c\<lparr>cs_current_error := e_success\<rparr>)
         else (Inr (), c))
        (\<lambda>_ c2. state env this_thread True c2 s_idle))"

subsection \<open>The statement hooks\<close>

text \<open>\<^verbatim>\<open>client_state::before_statement()\<close>; it changes nothing.\<close>

definition before_statement ::
  "('tx, 'm, 'k, 'b) env \<Rightarrow> ('tx, 'm) client_state \<Rightarrow> int" where
  "before_statement env c =
     (if trx_active env (cs_transaction c) \<and>
         trx_state env (cs_transaction c) = s_must_abort
      then 1 else 0)"

text \<open>\<^verbatim>\<open>client_state::after_statement()\<close>.\<close>

definition after_statement ::
  "('tx, 'm, 'k, 'b) env \<Rightarrow> ('tx, 'm) client_state
     \<Rightarrow> after_statement_result result \<times> ('tx, 'm) client_state" where
  "after_statement env c =
     (if \<not> assert_holds env (cs_state c = s_exec) then (Inl assertion_failure, c)
      else
        let c1 = trx_after_statement env c
        in if cs_current_error c1 = e_deadlock_error then
             (if cs_mode c1 = m_replicating \<and> is_autocommit env
              then (Inr asr_may_retry, c1)
              else (Inr asr_error, c1))
           else (Inr asr_success, c1))"

subsection \<open>Total order isolation\<close>

text \<open>
  \<^verbatim>\<open>client_state::enter_toi(keys, buffer, flags)\<close>. The \<^verbatim>\<open>switch\<close> has the case
  \<^verbatim>\<open>success\<close> and a \<^verbatim>\<open>default\<close>.
\<close>

definition enter_toi ::
  "('tx, 'm, 'k, 'b) env \<Rightarrow> thread_id \<Rightarrow> ('tx, 'm) client_state \<Rightarrow> 'k \<Rightarrow> 'b \<Rightarrow> int
     \<Rightarrow> int result \<times> ('tx, 'm) client_state" where
  "enter_toi env this_thread c keys buffer flags =
     (if \<not> assert_holds env (cs_state c = s_exec) then (Inl assertion_failure, c)
      else if \<not> assert_holds env (cs_mode c = m_replicating) then (Inl assertion_failure, c)
      else
        let (status, meta) = provider_enter_toi env (cs_id c) keys buffer (cs_toi_meta c) flags;
            c1 = c\<lparr>cs_toi_meta := meta\<rparr>
        in if status = success then
             and_then (mode env True (c1\<lparr>cs_toi_mode := cs_mode c1\<rparr>) m_toi)
               (\<lambda>_ c2. (Inr 0, c2))
           else
             and_then (override_error env this_thread c1 e_error_during_commit)
               (\<lambda>_ c2. (Inr 1, c2)))"

text \<open>\<^verbatim>\<open>client_state::enter_toi(ws_meta)\<close>, the overload of the high priority applier.\<close>

definition enter_toi_ws_meta ::
  "('tx, 'm, 'k, 'b) env \<Rightarrow> ('tx, 'm) client_state \<Rightarrow> 'm
     \<Rightarrow> int result \<times> ('tx, 'm) client_state" where
  "enter_toi_ws_meta env c ws_meta =
     (if \<not> assert_holds env (cs_mode c = m_high_priority) then (Inl assertion_failure, c)
      else and_then (mode env True (c\<lparr>cs_toi_mode := cs_mode c\<rparr>) m_toi)
             (\<lambda>_ c1. (Inr 0, c1\<lparr>cs_toi_meta := ws_meta\<rparr>)))"

text \<open>
  \<^verbatim>\<open>client_state::leave_toi()\<close>. The local \<^verbatim>\<open>ret\<close> is declared without a value and
  assigned only when the saved mode is replicating: \<open>None\<close> is the value that was
  never assigned. \<^verbatim>\<open>assert(0)\<close> fails in every build that has assertions.
\<close>

definition leave_toi ::
  "('tx, 'm, 'k, 'b) env \<Rightarrow> thread_id \<Rightarrow> ('tx, 'm) client_state
     \<Rightarrow> int option result \<times> ('tx, 'm) client_state" where
  "leave_toi env this_thread c =
     and_then
       (if cs_toi_mode c = m_replicating then
          (if provider_leave_toi env (cs_id c) = success then (Inr (Some 0), c)
           else if \<not> assert_holds env False then (Inl assertion_failure, c)
           else and_then (override_error env this_thread c e_error_during_commit)
                  (\<lambda>_ c1. (Inr (Some 1), c1)))
        else (Inr None, c))
       (\<lambda>ret c2.
          and_then (mode env True c2 (cs_toi_mode c2))
            (\<lambda>_ c3. (Inr ret, c3\<lparr>cs_toi_mode := m_local, cs_toi_meta := ws_meta_init env\<rparr>)))"

subsection \<open>What the hooks expect of the collaborators\<close>

text \<open>
  The rollback of the client service and the statement cleanup of the transaction run
  between two accesses of a hook to the session. \<open>keeps_session f\<close> says that \<open>f\<close>
  works on the transaction only: the lifecycle state, the owning thread and the current
  error of the session are after \<open>f\<close> what they were before.
\<close>

definition keeps_session ::
  "(('tx, 'm) client_state \<Rightarrow> ('tx, 'm) client_state) \<Rightarrow> bool" where
  "keeps_session f =
     (\<forall>c. cs_state (f c) = cs_state c \<and>
          cs_owning_thread_id (f c) = cs_owning_thread_id c \<and>
          cs_current_error (f c) = cs_current_error c)"

subsection \<open>A concrete set of collaborators\<close>

text \<open>
  Modelled from the spec: the transaction, the client service and the provider are
  outside src/ (src/test/mock_client_context.hpp declares \<^verbatim>\<open>rollback()\<close> of the test
  double, its definition is missing). The instance below is used for the closed
  instances of the theorems. Its transaction is a pair of the \<^verbatim>\<open>active()\<close> flag and the
  substate. It does what the assertions of \<^verbatim>\<open>before_command\<close> state: after the rollback
  the transaction is in \<^verbatim>\<open>s_aborted\<close>, and \<^verbatim>\<open>after_statement\<close> on a transaction that is
  over leaves no transaction active. The provider answers with a fixed status and
  counts up the meta data it is handed.
\<close>

type_synonym mock_transaction = "bool \<times> transaction_state"

definition mock_rollback ::
  "(mock_transaction, nat) client_state \<Rightarrow> (mock_transaction, nat) client_state" where
  "mock_rollback c = c\<lparr>cs_transaction := (fst (cs_transaction c), s_aborted)\<rparr>"

definition mock_after_statement ::
  "(mock_transaction, nat) client_state \<Rightarrow> (mock_transaction, nat) client_state" where
  "mock_after_statement c =
     (if snd (cs_transaction c) = s_aborted \<or> snd (cs_transaction c) = s_committed
      then c\<lparr>cs_transaction := (False, snd (cs_transaction c))\<rparr>
      else c)"

definition mock_env ::
  "bool \<Rightarrow> rollback_mode \<Rightarrow> bool \<Rightarrow> provider_status \<Rightarrow> provider_status
     \<Rightarrow> (mock_transaction, nat, nat, nat) env" where
  "mock_env nd rm ac enter_status leave_status =
     \<lparr>ndebug = nd, rollback_mode = rm, trx_active = fst, trx_state = snd,
      trx_after_statement = mock_after_statement, client_rollback = mock_rollback,
      is_autocommit = ac,
      provider_enter_toi = (\<lambda>cid keys buffer meta flags. (enter_status, Suc meta)),
      provider_leave_toi = (\<lambda>cid. leave_status),
      ws_meta_init = 0\<rparr>"

definition mock_client ::
  "state \<Rightarrow> mode \<Rightarrow> mock_transaction \<Rightarrow> client_error
     \<Rightarrow> (mock_transaction, nat) client_state" where
  "mock_client s m tx e =
     \<lparr>cs_owning_thread_id = 1, cs_current_thread_id = 1, cs_id = 7, cs_state = s,
      cs_mode = m, cs_transaction = tx, cs_toi_meta = 0, cs_toi_mode = m_local,
      cs_current_error = e\<rparr>"

section \<open>Properties\<close>

subsection \<open>Evaluation of the building blocks\<close>

lemma and_then_Inr: "and_then (Inr a, s) f = f a s"
  by (simp add: and_then_def)

lemma and_then_Inl: "and_then (Inl e, s) f = (Inl e, s)"
  by (simp add: and_then_def)

lemma assert_holds_True [simp]: "assert_holds env True"
  by (simp add: assert_holds_def)

lemma override_error_sets:
  "assert_holds env (this_thread = cs_owning_thread_id c) \<Longrightarrow> err \<noteq> e_success \<Longrightarrow>
   override_error env this_thread c err = (Inr (), c\<lparr>cs_current_error := err\<rparr>)"
  by (simp add: override_error_def)

lemma state_moves:
  "assert_holds env (this_thread = cs_owning_thread_id c) \<Longrightarrow>
   state_allowed ! state_index (cs_state c) ! state_index s \<noteq> 0 \<Longrightarrow>
   state env this_thread True c s = (Inr (), c\<lparr>cs_state := s\<rparr>)"
  by (simp add: state_def assert_holds_True)

lemma mode_moves:
  "mode_allowed ! mode_index (cs_mode c) ! mode_index m \<noteq> 0 \<Longrightarrow>
   mode env True c m = (Inr (), c\<lparr>cs_mode := m\<rparr>)"
  by (simp add: mode_def assert_holds_True)

lemma keeps_session_state: "keeps_session f \<Longrightarrow> cs_state (f c) = cs_state c"
  by (simp add: keeps_session_def)

lemma keeps_session_owner:
  "keeps_session f \<Longrightarrow> cs_owning_thread_id (f c) = cs_owning_thread_id c"
  by (simp add: keeps_session_def)

lemma keeps_session_error: "keeps_session f \<Longrightarrow> cs_current_error (f c) = cs_current_error c"
  by (simp add: keeps_session_def)

lemma assert_holds_conj: "assert_holds env (a \<and> b) \<longleftrightarrow> assert_holds env a \<and> assert_holds env b"
  by (auto simp add: assert_holds_def)

lemma keeps_session_mock_rollback: "keeps_session mock_rollback"
  by (simp add: keeps_session_def mock_rollback_def)

lemma keeps_session_mock_after_statement: "keeps_session mock_after_statement"
  by (simp add: keeps_session_def mock_after_statement_def)

text \<open>The loop of \<^verbatim>\<open>before_command\<close> ends exactly when the transaction is not aborting.\<close>

lemma before_command_wait_Some:
  assumes "before_command_wait env c = Some y"
  shows "trx_state env (cs_transaction c) \<noteq> s_aborting"
proof (rule before_command_wait.raw_induct
    [where P = "\<lambda>env c y. trx_state env (cs_transaction c) \<noteq> s_aborting", OF _ assms])
  fix wait :: "('a, 'b, 'c, 'd) env \<Rightarrow> ('a, 'b) client_state \<Rightarrow> ('a, 'b) client_state option"
    and env' c' y'
  assume ih: "\<And>e d z. wait e d = Some z \<Longrightarrow> trx_state e (cs_transaction d) \<noteq> s_aborting"
    and step: "(if trx_state env' (cs_transaction c') = s_aborting then wait env' c' else Some c')
                 = Some y'"
  show "trx_state env' (cs_transaction c') \<noteq> s_aborting"
  proof
    assume ab: "trx_state env' (cs_transaction c') = s_aborting"
    with step have "wait env' c' = Some y'" by simp
    from ih [OF this] ab show False by simp
  qed
qed

lemma before_command_wait_aborting:
  "trx_state env (cs_transaction c) = s_aborting \<Longrightarrow> before_command_wait env c = None"
  using before_command_wait_Some [of env c] by (cases "before_command_wait env c") auto

lemma before_command_wait_passes:
  "trx_state env (cs_transaction c) \<noteq> s_aborting \<Longrightarrow> before_command_wait env c = Some c"
  by (subst before_command_wait.simps) simp

lemma before_command_returns_iff:
  "(\<exists>r. before_command env this_thread c = Some r) \<longleftrightarrow>
     \<not> (assert_holds env (cs_state c = s_idle) \<and> rollback_mode env = rm_sync \<and>
        trx_state env (cs_transaction c) = s_aborting)"
  by (cases "trx_state env (cs_transaction c) = s_aborting")
     (auto simp add: before_command_def before_command_wait_aborting before_command_wait_passes)

subsection \<open>The two tables\<close>

text \<open>The cells of the tables that are not zero, as pairs of enumerators.\<close>

lemma state_allowed_iff:
  "state_allowed ! state_index a ! state_index b \<noteq> 0 \<longleftrightarrow>
     (a, b) \<in> {(s_none, s_idle), (s_idle, s_exec), (s_idle, s_quitting),
               (s_exec, s_result), (s_result, s_idle), (s_quitting, s_none)}"
  by (cases a; cases b; simp add: state_allowed_def)

lemma mode_allowed_iff:
  "mode_allowed ! mode_index a ! mode_index b \<noteq> 0 \<longleftrightarrow>
     (a, b) \<in> {(m_replicating, m_high_priority), (m_high_priority, m_replicating),
               (m_replicating, m_toi), (m_toi, m_replicating),
               (m_high_priority, m_toi), (m_toi, m_high_priority)}"
  by (cases a; cases b; simp add: mode_allowed_def)

text \<open>
  C1. Called by the owning thread with the lock held, \<^verbatim>\<open>state(lock, s)\<close> succeeds exactly
  for the pairs none to idle, idle to executing, idle to quitting, executing to result,
  result to idle and quitting to none, and then the session is in the new state. For
  every other pair it throws the runtime error "Unallowed state transition" and the
  session is left as it was.
\<close>

theorem state_transition_table:
  assumes "assert_holds env (this_thread = cs_owning_thread_id c)"
    and "assert_holds env owns_lock"
  shows "state env this_thread owns_lock c s =
     (if (cs_state c, s) \<in> {(s_none, s_idle), (s_idle, s_exec), (s_idle, s_quitting),
                       (s_exec, s_result), (s_result, s_idle), (s_quitting, s_none)}
      then (Inr (), c\<lparr>cs_state := s\<rparr>)
      else (Inl (runtime_error (unallowed_state_msg (cs_state c) s)), c))"
  using assms unfolding state_def state_allowed_iff by simp

theorem state_transition_table_witness:
  "assert_holds (mock_env False rm_async False success success)
       (1 = cs_owning_thread_id (mock_client s_idle m_replicating (False, s_executing) e_success)) \<and>
   assert_holds (mock_env False rm_async False success success) True \<and>
   state (mock_env False rm_async False success success) 1 True
       (mock_client s_idle m_replicating (False, s_executing) e_success) s_none =
     (Inl (runtime_error ''client_state: Unallowed state transition: 1 -> 0''),
      mock_client s_idle m_replicating (False, s_executing) e_success)"
proof -
  let ?E = "mock_env False rm_async False success success"
  let ?C = "mock_client s_idle m_replicating (False, s_executing) e_success"
  have h1: "assert_holds ?E (1 = cs_owning_thread_id ?C)"
    by (simp add: assert_holds_def mock_client_def)
  have h2: "assert_holds ?E True"
    by (simp add: assert_holds_def)
  show ?thesis
    using h1 h2 state_transition_table [OF h1 h2, of s_none]
    by (simp add: mock_client_def unallowed_state_msg_def show_enum_def)
qed

text \<open>
  C7. Called with the lock held, \<^verbatim>\<open>mode(lock, m)\<close> succeeds exactly for the six pairs
  between replicating, high priority and TOI, and then the session is in the new mode.
  Every other pair throws the runtime error "Unallowed mode transition" and leaves the
  session as it was; in particular no call leaves the mode local.
\<close>

theorem mode_transition_table:
  assumes "assert_holds env owns_lock"
  shows "mode env owns_lock c m =
     (if (cs_mode c, m) \<in> {(m_replicating, m_high_priority), (m_high_priority, m_replicating),
               (m_replicating, m_toi), (m_toi, m_replicating),
               (m_high_priority, m_toi), (m_toi, m_high_priority)}
      then (Inr (), c\<lparr>cs_mode := m\<rparr>)
      else (Inl (runtime_error (unallowed_mode_msg (cs_mode c) m)), c))
    \<and> (cs_mode c = m_local \<longrightarrow> fst (mode env owns_lock c m) \<noteq> Inr ())"
  using assms unfolding mode_def mode_allowed_iff by auto

theorem mode_transition_table_witness:
  "assert_holds (mock_env False rm_async False success success) True \<and>
   mode (mock_env False rm_async False success success) True
       (mock_client s_exec m_local (False, s_executing) e_success) m_replicating =
     (Inl (runtime_error ''client_state: Unallowed mode transition: 0 -> 1''),
      mock_client s_exec m_local (False, s_executing) e_success)"
proof -
  let ?E = "mock_env False rm_async False success success"
  have h: "assert_holds ?E True"
    by (simp add: assert_holds_def)
  show ?thesis
    using h mode_transition_table [OF h, of "mock_client s_exec m_local (False, s_executing) e_success" m_replicating]
    by (simp add: mock_client_def unallowed_mode_msg_def show_enum_def)
qed

subsection \<open>The client error\<close>

text \<open>
  C8. Called by the owning thread, \<^verbatim>\<open>override_error(e)\<close> throws the runtime error
  "Overriding error with success" when the current error is not success and \<open>e\<close> is
  success, and the session is left as it was; in every other case the current error
  becomes \<open>e\<close>.
\<close>

theorem override_error_keeps_failure:
  assumes "assert_holds env (this_thread = cs_owning_thread_id c)"
  shows "override_error env this_thread c err =
     (if cs_current_error c \<noteq> e_success \<and> err = e_success
      then (Inl (runtime_error ''Overriding error with success''), c)
      else (Inr (), c\<lparr>cs_current_error := err\<rparr>))"
  using assms by (simp add: override_error_def)

theorem override_error_keeps_failure_witness:
  "assert_holds (mock_env False rm_async False success success)
     (1 = cs_owning_thread_id (mock_client s_exec m_replicating (True, s_executing) e_deadlock_error)) \<and>
   override_error (mock_env False rm_async False success success) 1
       (mock_client s_exec m_replicating (True, s_executing) e_deadlock_error) e_success =
     (Inl (runtime_error ''Overriding error with success''),
      mock_client s_exec m_replicating (True, s_executing) e_deadlock_error)"
proof -
  let ?E = "mock_env False rm_async False success success"
  let ?C = "mock_client s_exec m_replicating (True, s_executing) e_deadlock_error"
  have h: "assert_holds ?E (1 = cs_owning_thread_id ?C)"
    by (simp add: assert_holds_def mock_client_def)
  show ?thesis
    using h override_error_keeps_failure [OF h, of e_success]
    by (simp add: mock_client_def)
qed

subsection \<open>The statement hook\<close>

text \<open>
  C6. In state executing \<^verbatim>\<open>after_statement\<close> calls the \<^verbatim>\<open>after_statement\<close> of the
  transaction and then looks at the session it left: if the current error is deadlock
  it returns may-retry when the mode is replicating and the client service reports
  autocommit, and error otherwise; if the current error is not deadlock it returns
  success.
\<close>

theorem after_statement_reports:
  assumes "cs_state c = s_exec"
    and "c' = trx_after_statement env c"
  shows "after_statement env c =
     (Inr (if cs_current_error c' = e_deadlock_error
           then (if cs_mode c' = m_replicating \<and> is_autocommit env
                 then asr_may_retry else asr_error)
           else asr_success), c')"
  using assms by (simp add: after_statement_def assert_holds_def Let_def)

theorem after_statement_reports_witness:
  "cs_state (mock_client s_exec m_replicating (True, s_executing) e_deadlock_error) = s_exec \<and>
   after_statement (mock_env False rm_async True success success)
       (mock_client s_exec m_replicating (True, s_executing) e_deadlock_error) =
     (Inr asr_may_retry, mock_client s_exec m_replicating (True, s_executing) e_deadlock_error) \<and>
   after_statement (mock_env False rm_async False success success)
       (mock_client s_exec m_replicating (True, s_executing) e_deadlock_error) =
     (Inr asr_error, mock_client s_exec m_replicating (True, s_executing) e_deadlock_error)"
proof -
  let ?C = "mock_client s_exec m_replicating (True, s_executing) e_deadlock_error"
  have h: "cs_state ?C = s_exec"
    by (simp add: mock_client_def)
  have a: "trx_after_statement (mock_env False rm_async True success success) ?C = ?C"
    by (simp add: mock_env_def mock_after_statement_def mock_client_def)
  have b: "trx_after_statement (mock_env False rm_async False success success) ?C = ?C"
    by (simp add: mock_env_def mock_after_statement_def mock_client_def)
  show ?thesis
    using h after_statement_reports [OF h a [symmetric]] after_statement_reports [OF h b [symmetric]]
    by (simp add: mock_client_def mock_env_def)
qed

subsection \<open>The command hooks\<close>

text \<open>
  The round trip "open, then cleanup" does not hold: idle to none is not a cell of the
  table, so \<^verbatim>\<open>cleanup()\<close> right after \<^verbatim>\<open>open(id)\<close> throws and the session stays idle.
\<close>

theorem open_then_cleanup_raises:
  "fst (open_session (mock_env False rm_async False success success) 2
         (mock_client s_none m_replicating (False, s_executing) e_success) 9) = Inr () \<and>
   cleanup (mock_env False rm_async False success success) 2
     (snd (open_session (mock_env False rm_async False success success) 2
            (mock_client s_none m_replicating (False, s_executing) e_success) 9)) =
     (Inl (runtime_error ''client_state: Unallowed state transition: 1 -> 0''),
      (mock_client s_none m_replicating (False, s_executing) e_success)
        \<lparr>cs_owning_thread_id := 2, cs_current_thread_id := 2, cs_id := 9, cs_state := s_idle\<rparr>) \<and>
   cs_state (snd (cleanup (mock_env False rm_async False success success) 2
     (snd (open_session (mock_env False rm_async False success success) 2
            (mock_client s_none m_replicating (False, s_executing) e_success) 9)))) \<noteq> s_none"
  by (simp add: open_session_def cleanup_def state_def and_then_def assert_holds_def
      mock_env_def mock_client_def state_allowed_def unallowed_state_msg_def show_enum_def Let_def)

text \<open>
  C3 (amended). For a session in state none with no active transaction, \<^verbatim>\<open>open(id)\<close>,
  \<^verbatim>\<open>close()\<close> and \<^verbatim>\<open>cleanup()\<close> by one thread all succeed and return the session to
  none; no transaction is active and the current error is the one before \<^verbatim>\<open>open\<close>
  (success if it was success). \<^verbatim>\<open>cleanup()\<close> right after \<^verbatim>\<open>open(id)\<close> throws the runtime
  error of the transition idle to none and leaves the session idle.
\<close>

theorem open_close_cleanup_round_trip:
  assumes "cs_state c = s_none"
    and "\<not> trx_active env (cs_transaction c)"
  shows "(let c1 = c\<lparr>cs_owning_thread_id := this_thread, cs_current_thread_id := this_thread,
                     cs_state := s_idle, cs_id := cid\<rparr>;
              c2 = c1\<lparr>cs_state := s_quitting\<rparr>;
              c3 = c2\<lparr>cs_state := s_none\<rparr>
          in open_session env this_thread c cid = (Inr (), c1) \<and>
             close env this_thread c1 = (Inr (), c2) \<and>
             cleanup env this_thread c2 = (Inr (), c3) \<and>
             cs_state c3 = s_none \<and>
             \<not> trx_active env (cs_transaction c3) \<and>
             cs_current_error c3 = cs_current_error c \<and>
             cleanup env this_thread c1 =
               (Inl (runtime_error ''client_state: Unallowed state transition: 1 -> 0''), c1))"
  using assms
  by (simp add: open_session_def close_def cleanup_def state_def and_then_def assert_holds_def
      state_allowed_def unallowed_state_msg_def show_enum_def Let_def)

theorem open_close_cleanup_round_trip_witness:
  "cs_state (mock_client s_none m_replicating (False, s_executing) e_success) = s_none \<and>
   \<not> trx_active (mock_env False rm_async False success success)
        (cs_transaction (mock_client s_none m_replicating (False, s_executing) e_success)) \<and>
   cleanup (mock_env False rm_async False success success) 2
     (snd (close (mock_env False rm_async False success success) 2
       (snd (open_session (mock_env False rm_async False success success) 2
              (mock_client s_none m_replicating (False, s_executing) e_success) 9)))) =
     (Inr (), (mock_client s_none m_replicating (False, s_executing) e_success)
        \<lparr>cs_owning_thread_id := 2, cs_current_thread_id := 2, cs_id := 9\<rparr>)"
proof -
  let ?E = "mock_env False rm_async False success success"
  let ?C = "mock_client s_none m_replicating (False, s_executing) e_success"
  have h1: "cs_state ?C = s_none"
    by (simp add: mock_client_def)
  have h2: "\<not> trx_active ?E (cs_transaction ?C)"
    by (simp add: mock_client_def mock_env_def)
  show ?thesis
    using h1 h2 open_close_cleanup_round_trip [OF h1 h2, where this_thread = 2 and cid = 9]
    by (simp add: Let_def mock_client_def)
qed

text \<open>
  C4. In synchronous rollback mode \<^verbatim>\<open>before_command\<close> on an idle session whose
  transaction is aborting does not return: the loop has no body that could change what
  it tests, and \<^verbatim>\<open>state(lock, s_exec)\<close> is never reached.
\<close>

theorem before_command_sync_aborting_hangs:
  "before_command (mock_env False rm_sync False success success) 1
     (mock_client s_idle m_replicating (True, s_aborting) e_success) = None"
proof -
  let ?E = "mock_env False rm_sync False success success"
  let ?C = "mock_client s_idle m_replicating (True, s_aborting) e_success"
  have "trx_state ?E (cs_transaction ?C) = s_aborting"
    by (simp add: mock_env_def mock_client_def)
  then have "before_command_wait ?E ?C = None"
    by (rule before_command_wait_aborting)
  moreover have "rollback_mode ?E = rm_sync" "cs_state ?C = s_idle"
    by (simp_all add: mock_env_def mock_client_def)
  ultimately show ?thesis
    by (simp add: before_command_def assert_holds_def)
qed

text \<open>
  C5. For an idle session with an active transaction, called by the owning thread, with
  collaborators that leave the session alone: if the transaction must abort (the code
  asserts asynchronous rollback mode), \<^verbatim>\<open>before_command\<close> moves to executing, overrides
  the error to deadlock, runs the rollback and then \<^verbatim>\<open>after_statement\<close> of the
  transaction, and returns 1 with the session executing and the error deadlock; if the
  transaction is aborted it does the same without the rollback; if the transaction is
  executing it returns 0 with the session executing. The asserted outcome of the
  collaborators (transaction aborted, none active) is assumed where the build checks it.
\<close>

theorem before_command_active_transaction:
  assumes "cs_state c = s_idle"
    and "trx_active env (cs_transaction c)"
    and "assert_holds env (this_thread = cs_owning_thread_id c)"
    and "keeps_session (client_rollback env)"
    and "keeps_session (trx_after_statement env)"
  shows "(trx_state env (cs_transaction c) = s_must_abort \<and>
          assert_holds env (rollback_mode env = rm_async) \<and>
          assert_holds env
            (trx_state env (cs_transaction (trx_after_statement env (client_rollback env
               (c\<lparr>cs_state := s_exec, cs_current_error := e_deadlock_error\<rparr>)))) = s_aborted \<and>
             \<not> trx_active env (cs_transaction (trx_after_statement env (client_rollback env
               (c\<lparr>cs_state := s_exec, cs_current_error := e_deadlock_error\<rparr>)))))
          \<longrightarrow> (let c' = trx_after_statement env (client_rollback env
                            (c\<lparr>cs_state := s_exec, cs_current_error := e_deadlock_error\<rparr>))
               in before_command env this_thread c = Some (Inr 1, c') \<and>
                  cs_state c' = s_exec \<and> cs_current_error c' = e_deadlock_error))
       \<and> (trx_state env (cs_transaction c) = s_aborted \<and>
          assert_holds env
            (\<not> trx_active env (cs_transaction (trx_after_statement env
               (c\<lparr>cs_state := s_exec, cs_current_error := e_deadlock_error\<rparr>))))
          \<longrightarrow> (let c' = trx_after_statement env
                            (c\<lparr>cs_state := s_exec, cs_current_error := e_deadlock_error\<rparr>)
               in before_command env this_thread c = Some (Inr 1, c') \<and>
                  cs_state c' = s_exec \<and> cs_current_error c' = e_deadlock_error))
       \<and> (trx_state env (cs_transaction c) = s_executing
          \<longrightarrow> before_command env this_thread c = Some (Inr 0, c\<lparr>cs_state := s_exec\<rparr>))"
proof (intro conjI impI)
  have wait: "trx_state env (cs_transaction c) \<noteq> s_aborting \<Longrightarrow>
      before_command env this_thread c = Some (before_command_exec env this_thread c)"
    using assms(1)
    by (cases "rollback_mode env") (simp_all add: before_command_def before_command_wait_passes)
  have st: "state env this_thread True c s_exec = (Inr (), c\<lparr>cs_state := s_exec\<rparr>)"
    using assms(1,3) by (simp add: state_moves state_allowed_def)
  have ov: "override_error env this_thread (c\<lparr>cs_state := s_exec\<rparr>) e_deadlock_error
              = (Inr (), c\<lparr>cs_state := s_exec, cs_current_error := e_deadlock_error\<rparr>)"
    using assms(3) by (simp add: override_error_sets)
  {
    assume a: "trx_state env (cs_transaction c) = s_must_abort \<and>
          assert_holds env (rollback_mode env = rm_async) \<and>
          assert_holds env
            (trx_state env (cs_transaction (trx_after_statement env (client_rollback env
               (c\<lparr>cs_state := s_exec, cs_current_error := e_deadlock_error\<rparr>)))) = s_aborted \<and>
             \<not> trx_active env (cs_transaction (trx_after_statement env (client_rollback env
               (c\<lparr>cs_state := s_exec, cs_current_error := e_deadlock_error\<rparr>)))))"
    let ?c' = "trx_after_statement env (client_rollback env
                 (c\<lparr>cs_state := s_exec, cs_current_error := e_deadlock_error\<rparr>))"
    have e: "cs_current_error ?c' = e_deadlock_error" and s: "cs_state ?c' = s_exec"
      using assms(4,5) by (simp_all add: keeps_session_error keeps_session_state)
    have "before_command_exec env this_thread c = (Inr 1, ?c')"
      using a assms(2) e
      by (simp add: before_command_exec_def st ov and_then_Inr Let_def assert_holds_conj)
    with a wait e s
    show "(let c' = trx_after_statement env (client_rollback env
                            (c\<lparr>cs_state := s_exec, cs_current_error := e_deadlock_error\<rparr>))
               in before_command env this_thread c = Some (Inr 1, c') \<and>
                  cs_state c' = s_exec \<and> cs_current_error c' = e_deadlock_error)"
      by (simp add: Let_def)
  }
  {
    assume a: "trx_state env (cs_transaction c) = s_aborted \<and>
          assert_holds env
            (\<not> trx_active env (cs_transaction (trx_after_statement env
               (c\<lparr>cs_state := s_exec, cs_current_error := e_deadlock_error\<rparr>))))"
    let ?c' = "trx_after_statement env
                 (c\<lparr>cs_state := s_exec, cs_current_error := e_deadlock_error\<rparr>)"
    have e: "cs_current_error ?c' = e_deadlock_error" and s: "cs_state ?c' = s_exec"
      using assms(5) by (simp_all add: keeps_session_error keeps_session_state)
    have "before_command_exec env this_thread c = (Inr 1, ?c')"
      using a assms(2)
      by (simp add: before_command_exec_def st ov and_then_Inr Let_def)
    with a wait e s
    show "(let c' = trx_after_statement env
                            (c\<lparr>cs_state := s_exec, cs_current_error := e_deadlock_error\<rparr>)
               in before_command env this_thread c = Some (Inr 1, c') \<and>
                  cs_state c' = s_exec \<and> cs_current_error c' = e_deadlock_error)"
      by (simp add: Let_def)
  }
  {
    assume a: "trx_state env (cs_transaction c) = s_executing"
    have "before_command_exec env this_thread c = (Inr 0, c\<lparr>cs_state := s_exec\<rparr>)"
      using a assms(2)
      by (simp add: before_command_exec_def st and_then_Inr)
    with a wait
    show "before_command env this_thread c = Some (Inr 0, c\<lparr>cs_state := s_exec\<rparr>)"
      by simp
  }
qed

theorem before_command_active_transaction_witness:
  "before_command (mock_env False rm_async False success success) 1
     (mock_client s_idle m_replicating (True, s_must_abort) e_success) =
       Some (Inr 1, mock_client s_exec m_replicating (False, s_aborted) e_deadlock_error) \<and>
   before_command (mock_env False rm_sync False success success) 1
     (mock_client s_idle m_replicating (True, s_aborted) e_success) =
       Some (Inr 1, mock_client s_exec m_replicating (False, s_aborted) e_deadlock_error) \<and>
   before_command (mock_env False rm_sync False success success) 1
     (mock_client s_idle m_replicating (True, s_executing) e_success) =
       Some (Inr 0, mock_client s_exec m_replicating (True, s_executing) e_success)"
proof -
  have h1: "cs_state (mock_client s_idle m_replicating (True, ts) e_success) = s_idle" for ts
    by (simp add: mock_client_def)
  have h2: "trx_active (mock_env False rm False success success)
              (cs_transaction (mock_client s_idle m_replicating (True, ts) e_success))" for rm ts
    by (simp add: mock_client_def mock_env_def)
  have h3: "assert_holds (mock_env False rm False success success)
              (1 = cs_owning_thread_id (mock_client s_idle m_replicating (True, ts) e_success))"
    for rm ts
    by (simp add: assert_holds_def mock_client_def)
  have h4: "keeps_session (client_rollback (mock_env False rm False success success))" for rm
    by (simp add: mock_env_def keeps_session_mock_rollback)
  have h5: "keeps_session (trx_after_statement (mock_env False rm False success success))" for rm
    by (simp add: mock_env_def keeps_session_mock_after_statement)
  have "before_command (mock_env False rm_async False success success) 1
          (mock_client s_idle m_replicating (True, s_must_abort) e_success) =
       Some (Inr 1, mock_client s_exec m_replicating (False, s_aborted) e_deadlock_error)"
    using before_command_active_transaction
      [OF h1 [of s_must_abort] h2 [of rm_async s_must_abort] h3 [of rm_async s_must_abort]
          h4 [of rm_async] h5 [of rm_async]]
    by (simp add: Let_def assert_holds_def mock_client_def mock_env_def mock_rollback_def
        mock_after_statement_def)
  moreover have "before_command (mock_env False rm_sync False success success) 1
          (mock_client s_idle m_replicating (True, s_aborted) e_success) =
       Some (Inr 1, mock_client s_exec m_replicating (False, s_aborted) e_deadlock_error)"
    using before_command_active_transaction
      [OF h1 [of s_aborted] h2 [of rm_sync s_aborted] h3 [of rm_sync s_aborted]
          h4 [of rm_sync] h5 [of rm_sync]]
    by (simp add: Let_def assert_holds_def mock_client_def mock_env_def mock_rollback_def
        mock_after_statement_def)
  moreover have "before_command (mock_env False rm_sync False success success) 1
          (mock_client s_idle m_replicating (True, s_executing) e_success) =
       Some (Inr 0, mock_client s_exec m_replicating (True, s_executing) e_success)"
    using before_command_active_transaction
      [OF h1 [of s_executing] h2 [of rm_sync s_executing] h3 [of rm_sync s_executing]
          h4 [of rm_sync] h5 [of rm_sync]]
    by (simp add: Let_def assert_holds_def mock_client_def mock_env_def mock_rollback_def
        mock_after_statement_def)
  ultimately show ?thesis by simp
qed

text \<open>
  The scenario "must abort seen by \<^verbatim>\<open>after_command_before_result\<close>" with the concrete
  collaborators: the statement cleanup leaves no transaction active, so
  \<^verbatim>\<open>after_command_after_result\<close> clears the error; it does not remain deadlock.
\<close>

theorem bf_abort_error_cleared:
  "cs_state (mock_client s_exec m_replicating (True, s_must_abort) e_success) = s_exec \<and>
   trx_active (mock_env False rm_async False success success)
     (cs_transaction (mock_client s_exec m_replicating (True, s_must_abort) e_success)) \<and>
   trx_state (mock_env False rm_async False success success)
     (cs_transaction (mock_client s_exec m_replicating (True, s_must_abort) e_success))
       = s_must_abort \<and>
   after_command_before_result (mock_env False rm_async False success success) 1
     (mock_client s_exec m_replicating (True, s_must_abort) e_success) =
       (Inr (), mock_client s_result m_replicating (False, s_aborted) e_deadlock_error) \<and>
   after_command_after_result (mock_env False rm_async False success success) 1
     (mock_client s_result m_replicating (False, s_aborted) e_deadlock_error) =
       (Inr (), mock_client s_idle m_replicating (False, s_aborted) e_success) \<and>
   cs_current_error (snd (after_command_after_result
       (mock_env False rm_async False success success) 1
       (snd (after_command_before_result (mock_env False rm_async False success success) 1
              (mock_client s_exec m_replicating (True, s_must_abort) e_success)))))
     \<noteq> e_deadlock_error"
  by (simp add: after_command_before_result_def after_command_after_result_def
      override_error_def state_def and_then_def assert_holds_def Let_def
      mock_env_def mock_client_def mock_rollback_def mock_after_statement_def state_allowed_def)

text \<open>
  C2 (amended). For a session in state executing whose active transaction must abort,
  called by the owning thread, with collaborators that leave the session alone and a
  transaction that is aborted after rollback and statement cleanup:
  \<^verbatim>\<open>after_command_before_result\<close> overrides the error to deadlock, runs the rollback and
  \<^verbatim>\<open>after_statement\<close> of the transaction and moves to result with the error deadlock;
  the following \<^verbatim>\<open>after_command_after_result\<close> moves to idle, and the error is then
  deadlock if the transaction is still active and success if it is not.
\<close>

theorem bf_abort_during_command:
  assumes "cs_state c = s_exec"
    and "trx_active env (cs_transaction c)"
    and "trx_state env (cs_transaction c) = s_must_abort"
    and "assert_holds env (this_thread = cs_owning_thread_id c)"
    and "keeps_session (client_rollback env)"
    and "keeps_session (trx_after_statement env)"
    and "c1 = trx_after_statement env (client_rollback env (c\<lparr>cs_current_error := e_deadlock_error\<rparr>))"
    and "trx_state env (cs_transaction c1) = s_aborted"
  shows "after_command_before_result env this_thread c = (Inr (), c1\<lparr>cs_state := s_result\<rparr>) \<and>
         cs_current_error (c1\<lparr>cs_state := s_result\<rparr>) = e_deadlock_error \<and>
         after_command_after_result env this_thread (c1\<lparr>cs_state := s_result\<rparr>) =
           (Inr (), c1\<lparr>cs_state := s_idle,
                        cs_current_error := (if trx_active env (cs_transaction c1)
                                             then e_deadlock_error else e_success)\<rparr>)"
proof -
  have ov: "override_error env this_thread c e_deadlock_error
              = (Inr (), c\<lparr>cs_current_error := e_deadlock_error\<rparr>)"
    using assms(4) by (simp add: override_error_sets)
  have e: "cs_current_error c1 = e_deadlock_error"
    and s: "cs_state c1 = s_exec"
    and o: "cs_owning_thread_id c1 = cs_owning_thread_id c"
    using assms(1,5,6,7)
    by (simp_all add: keeps_session_error keeps_session_state keeps_session_owner)
  have own: "assert_holds env (this_thread = cs_owning_thread_id c1)"
    using assms(4) o by simp
  have st1: "state env this_thread True c1 s_result = (Inr (), c1\<lparr>cs_state := s_result\<rparr>)"
    using own s by (simp add: state_moves state_allowed_def)
  have first: "after_command_before_result env this_thread c = (Inr (), c1\<lparr>cs_state := s_result\<rparr>)"
    using assms(1,2,3,8) e st1 assms(7) [symmetric]
    by (simp add: after_command_before_result_def ov and_then_Inr Let_def)
  have st2: "\<And>d. cs_state d = s_result \<Longrightarrow> cs_owning_thread_id d = cs_owning_thread_id c1 \<Longrightarrow>
      state env this_thread True d s_idle = (Inr (), d\<lparr>cs_state := s_idle\<rparr>)"
    using own by (simp add: state_moves state_allowed_def)
  have second: "after_command_after_result env this_thread (c1\<lparr>cs_state := s_result\<rparr>) =
           (Inr (), c1\<lparr>cs_state := s_idle,
                        cs_current_error := (if trx_active env (cs_transaction c1)
                                             then e_deadlock_error else e_success)\<rparr>)"
  proof (cases "trx_active env (cs_transaction c1)")
    case True
    have "c1\<lparr>cs_state := s_idle, cs_current_error := e_deadlock_error\<rparr> = c1\<lparr>cs_state := s_idle\<rparr>"
      using e by simp
    with True assms(8) show ?thesis
      by (simp add: after_command_after_result_def and_then_Inr st2)
  next
    case False
    with assms(8) show ?thesis
      by (simp add: after_command_after_result_def and_then_Inr st2)
  qed
  from first second e show ?thesis by simp
qed

theorem bf_abort_during_command_witness:
  "cs_state (mock_client s_exec m_replicating (True, s_must_abort) e_success) = s_exec \<and>
   trx_active (mock_env False rm_async False success success)
     (cs_transaction (mock_client s_exec m_replicating (True, s_must_abort) e_success)) \<and>
   trx_state (mock_env False rm_async False success success)
     (cs_transaction (mock_client s_exec m_replicating (True, s_must_abort) e_success))
       = s_must_abort \<and>
   assert_holds (mock_env False rm_async False success success)
     (1 = cs_owning_thread_id (mock_client s_exec m_replicating (True, s_must_abort) e_success)) \<and>
   keeps_session (client_rollback (mock_env False rm_async False success success)) \<and>
   keeps_session (trx_after_statement (mock_env False rm_async False success success)) \<and>
   trx_state (mock_env False rm_async False success success)
     (cs_transaction (mock_client s_exec m_replicating (False, s_aborted) e_deadlock_error))
       = s_aborted \<and>
   after_command_before_result (mock_env False rm_async False success success) 1
     (mock_client s_exec m_replicating (True, s_must_abort) e_success) =
       (Inr (), mock_client s_result m_replicating (False, s_aborted) e_deadlock_error) \<and>
   after_command_after_result (mock_env False rm_async False success success) 1
     (mock_client s_result m_replicating (False, s_aborted) e_deadlock_error) =
       (Inr (), mock_client s_idle m_replicating (False, s_aborted) e_success)"
proof -
  let ?E = "mock_env False rm_async False success success"
  let ?C = "mock_client s_exec m_replicating (True, s_must_abort) e_success"
  let ?C1 = "mock_client s_exec m_replicating (False, s_aborted) e_deadlock_error"
  have h1: "cs_state ?C = s_exec"
    by (simp add: mock_client_def)
  have h2: "trx_active ?E (cs_transaction ?C)"
    by (simp add: mock_client_def mock_env_def)
  have h3: "trx_state ?E (cs_transaction ?C) = s_must_abort"
    by (simp add: mock_client_def mock_env_def)
  have h4: "assert_holds ?E (1 = cs_owning_thread_id ?C)"
    by (simp add: assert_holds_def mock_client_def)
  have h5: "keeps_session (client_rollback ?E)"
    by (simp add: mock_env_def keeps_session_mock_rollback)
  have h6: "keeps_session (trx_after_statement ?E)"
    by (simp add: mock_env_def keeps_session_mock_after_statement)
  have h7: "?C1 = trx_after_statement ?E (client_rollback ?E (?C\<lparr>cs_current_error := e_deadlock_error\<rparr>))"
    by (simp add: mock_env_def mock_client_def mock_rollback_def mock_after_statement_def)
  have h8: "trx_state ?E (cs_transaction ?C1) = s_aborted"
    by (simp add: mock_client_def mock_env_def)
  show ?thesis
    using h1 h2 h3 h4 h5 h6 h8 bf_abort_during_command [OF h1 h2 h3 h4 h5 h6 h7 h8]
    by (simp add: mock_client_def mock_env_def)
qed

subsection \<open>Total order isolation\<close>

text \<open>
  C10. For a session in state executing and mode replicating, called by the owning
  thread: if the provider answers \<^verbatim>\<open>enter_toi\<close> with a status other than success, then
  \<^verbatim>\<open>enter_toi(keys, buffer, flags)\<close> returns 1 and the current error is
  error-during-commit; the mode is still replicating, the saved TOI mode and the
  lifecycle state are untouched. The TOI meta is what the provider left in it.
\<close>

theorem enter_toi_provider_failure:
  assumes "cs_state c = s_exec"
    and "cs_mode c = m_replicating"
    and "assert_holds env (this_thread = cs_owning_thread_id c)"
    and "provider_enter_toi env (cs_id c) keys buffer (cs_toi_meta c) flags = (status, meta)"
    and "status \<noteq> success"
  shows "enter_toi env this_thread c keys buffer flags =
           (Inr 1, c\<lparr>cs_toi_meta := meta, cs_current_error := e_error_during_commit\<rparr>) \<and>
         cs_mode (snd (enter_toi env this_thread c keys buffer flags)) = m_replicating \<and>
         cs_toi_mode (snd (enter_toi env this_thread c keys buffer flags)) = cs_toi_mode c \<and>
         cs_state (snd (enter_toi env this_thread c keys buffer flags)) = s_exec"
  using assms
  by (simp add: enter_toi_def override_error_sets and_then_Inr)

theorem enter_toi_provider_failure_witness:
  "cs_state (mock_client s_exec m_replicating (False, s_executing) e_success) = s_exec \<and>
   cs_mode (mock_client s_exec m_replicating (False, s_executing) e_success) = m_replicating \<and>
   assert_holds (mock_env False rm_async False cert_failed success)
     (1 = cs_owning_thread_id (mock_client s_exec m_replicating (False, s_executing) e_success)) \<and>
   provider_enter_toi (mock_env False rm_async False cert_failed success)
     (cs_id (mock_client s_exec m_replicating (False, s_executing) e_success)) (0::nat) (0::nat)
     (cs_toi_meta (mock_client s_exec m_replicating (False, s_executing) e_success)) 0
       = (cert_failed, 1) \<and>
   cert_failed \<noteq> success \<and>
   enter_toi (mock_env False rm_async False cert_failed success) 1
       (mock_client s_exec m_replicating (False, s_executing) e_success) 0 0 0 =
     (Inr 1, (mock_client s_exec m_replicating (False, s_executing) e_success)
               \<lparr>cs_toi_meta := 1, cs_current_error := e_error_during_commit\<rparr>)"
proof -
  let ?E = "mock_env False rm_async False cert_failed success"
  let ?C = "mock_client s_exec m_replicating (False, s_executing) e_success"
  have h1: "cs_state ?C = s_exec"
    by (simp add: mock_client_def)
  have h2: "cs_mode ?C = m_replicating"
    by (simp add: mock_client_def)
  have h3: "assert_holds ?E (1 = cs_owning_thread_id ?C)"
    by (simp add: assert_holds_def mock_client_def)
  have h4: "provider_enter_toi ?E (cs_id ?C) (0::nat) (0::nat) (cs_toi_meta ?C) 0 = (cert_failed, 1)"
    by (simp add: mock_env_def mock_client_def)
  have h5: "cert_failed \<noteq> success"
    by simp
  show ?thesis
    using h1 h2 h3 h4 h5 enter_toi_provider_failure [OF h1 h2 h3 h4 h5]
    by simp
qed

text \<open>
  In a build with assertions a failing \<^verbatim>\<open>leave_toi\<close> of the provider stops at
  \<^verbatim>\<open>assert(0)\<close>, before the mode is restored.
\<close>

lemma leave_toi_assert_0:
  assumes "cs_toi_mode c = m_replicating"
    and "provider_leave_toi env (cs_id c) \<noteq> success"
    and "\<not> ndebug env"
  shows "leave_toi env this_thread c = (Inl assertion_failure, c)"
  using assms by (simp add: leave_toi_def assert_holds_def and_then_Inl)

text \<open>
  The round trip through TOI does not hold for every answer of the provider: in a build
  with assertions, after a successful \<^verbatim>\<open>enter_toi(keys, buffer, flags)\<close> from
  replicating, a \<^verbatim>\<open>leave_toi\<close> whose provider call fails stops at \<^verbatim>\<open>assert(0)\<close>; the
  mode is still TOI, the saved TOI mode still replicating and the TOI meta not reset.
\<close>

theorem toi_leave_stops_at_assert:
  "cs_mode (mock_client s_exec m_replicating (False, s_executing) e_success) = m_replicating \<and>
   enter_toi (mock_env False rm_async False success cert_failed) 1
     (mock_client s_exec m_replicating (False, s_executing) e_success) 0 0 0 =
       (Inr 0, (mock_client s_exec m_toi (False, s_executing) e_success)
                  \<lparr>cs_toi_meta := 1, cs_toi_mode := m_replicating\<rparr>) \<and>
   leave_toi (mock_env False rm_async False success cert_failed) 1
     ((mock_client s_exec m_toi (False, s_executing) e_success)
                  \<lparr>cs_toi_meta := 1, cs_toi_mode := m_replicating\<rparr>) =
       (Inl assertion_failure,
        (mock_client s_exec m_toi (False, s_executing) e_success)
                  \<lparr>cs_toi_meta := 1, cs_toi_mode := m_replicating\<rparr>) \<and>
   cs_mode (snd (leave_toi (mock_env False rm_async False success cert_failed) 1
     (snd (enter_toi (mock_env False rm_async False success cert_failed) 1
       (mock_client s_exec m_replicating (False, s_executing) e_success) 0 0 0))))
     \<noteq> m_replicating \<and>
   cs_toi_mode (snd (leave_toi (mock_env False rm_async False success cert_failed) 1
     (snd (enter_toi (mock_env False rm_async False success cert_failed) 1
       (mock_client s_exec m_replicating (False, s_executing) e_success) 0 0 0))))
     \<noteq> m_local \<and>
   cs_toi_meta (snd (leave_toi (mock_env False rm_async False success cert_failed) 1
     (snd (enter_toi (mock_env False rm_async False success cert_failed) 1
       (mock_client s_exec m_replicating (False, s_executing) e_success) 0 0 0))))
     \<noteq> ws_meta_init (mock_env False rm_async False success cert_failed)"
  by (simp add: enter_toi_def leave_toi_def mode_def override_error_def and_then_def
      assert_holds_def Let_def mock_env_def mock_client_def mode_allowed_def)

text \<open>
  C9 (amended). From mode replicating (state executing, the provider answers
  \<^verbatim>\<open>enter_toi\<close> with success) \<^verbatim>\<open>enter_toi(keys, buffer, flags)\<close> returns 0, saves
  replicating in the TOI mode and moves to TOI; \<^verbatim>\<open>leave_toi\<close> then restores replicating,
  sets the saved TOI mode to local and the TOI meta to its initial value, provided the
  provider answers \<^verbatim>\<open>leave_toi\<close> with success or the build has no assertions. From mode
  high priority \<^verbatim>\<open>enter_toi(ws_meta)\<close> returns 0, saves high priority and moves to TOI,
  and \<^verbatim>\<open>leave_toi\<close> restores high priority and clears the saved mode and the meta;
  neither result depends on the provider, which is not called.
\<close>

theorem toi_round_trip:
  shows "(assert_holds env (cs_state c = s_exec) \<and> cs_mode c = m_replicating \<and>
          provider_enter_toi env (cs_id c) keys buffer (cs_toi_meta c) flags = (success, meta) \<and>
          assert_holds env (provider_leave_toi env (cs_id c) = success)
          \<longrightarrow> (let c1 = c\<lparr>cs_toi_meta := meta, cs_toi_mode := m_replicating, cs_mode := m_toi\<rparr>;
                    r = leave_toi env this_thread c1
                in enter_toi env this_thread c keys buffer flags = (Inr 0, c1) \<and>
                   fst r = Inr (Some (if provider_leave_toi env (cs_id c) = success then 0 else 1)) \<and>
                   cs_mode (snd r) = m_replicating \<and>
                   cs_toi_mode (snd r) = m_local \<and>
                   cs_toi_meta (snd r) = ws_meta_init env))
       \<and> (cs_mode c = m_high_priority
          \<longrightarrow> (let c1 = c\<lparr>cs_toi_mode := m_high_priority, cs_mode := m_toi, cs_toi_meta := ws_meta\<rparr>;
                    r = leave_toi env this_thread c1
                in enter_toi_ws_meta env c ws_meta = (Inr 0, c1) \<and>
                   enter_toi_ws_meta (env\<lparr>provider_enter_toi := p\<rparr>) c ws_meta = (Inr 0, c1) \<and>
                   leave_toi (env\<lparr>provider_leave_toi := q\<rparr>) this_thread c1 = r \<and>
                   r = (Inr None, c\<lparr>cs_toi_mode := m_local, cs_toi_meta := ws_meta_init env\<rparr>) \<and>
                   cs_mode (snd r) = m_high_priority \<and>
                   cs_toi_mode (snd r) = m_local \<and>
                   cs_toi_meta (snd r) = ws_meta_init env))"
proof (intro conjI impI)
  assume a: "assert_holds env (cs_state c = s_exec) \<and> cs_mode c = m_replicating \<and>
          provider_enter_toi env (cs_id c) keys buffer (cs_toi_meta c) flags = (success, meta) \<and>
          assert_holds env (provider_leave_toi env (cs_id c) = success)"
  then show "(let c1 = c\<lparr>cs_toi_meta := meta, cs_toi_mode := m_replicating, cs_mode := m_toi\<rparr>;
                    r = leave_toi env this_thread c1
                in enter_toi env this_thread c keys buffer flags = (Inr 0, c1) \<and>
                   fst r = Inr (Some (if provider_leave_toi env (cs_id c) = success then 0 else 1)) \<and>
                   cs_mode (snd r) = m_replicating \<and>
                   cs_toi_mode (snd r) = m_local \<and>
                   cs_toi_meta (snd r) = ws_meta_init env)"
    by (auto simp add: enter_toi_def leave_toi_def mode_moves override_error_def and_then_Inr
        and_then_Inl assert_holds_def Let_def mode_allowed_def)
next
  assume a: "cs_mode c = m_high_priority"
  then show "(let c1 = c\<lparr>cs_toi_mode := m_high_priority, cs_mode := m_toi, cs_toi_meta := ws_meta\<rparr>;
                    r = leave_toi env this_thread c1
                in enter_toi_ws_meta env c ws_meta = (Inr 0, c1) \<and>
                   enter_toi_ws_meta (env\<lparr>provider_enter_toi := p\<rparr>) c ws_meta = (Inr 0, c1) \<and>
                   leave_toi (env\<lparr>provider_leave_toi := q\<rparr>) this_thread c1 = r \<and>
                   r = (Inr None, c\<lparr>cs_toi_mode := m_local, cs_toi_meta := ws_meta_init env\<rparr>) \<and>
                   cs_mode (snd r) = m_high_priority \<and>
                   cs_toi_mode (snd r) = m_local \<and>
                   cs_toi_meta (snd r) = ws_meta_init env)"
    by (simp add: enter_toi_ws_meta_def leave_toi_def mode_moves and_then_Inr
        assert_holds_def Let_def mode_allowed_def)
qed

theorem toi_round_trip_witness:
  "enter_toi (mock_env False rm_async False success success) 1
     (mock_client s_exec m_replicating (False, s_executing) e_success) 0 0 0 =
       (Inr 0, (mock_client s_exec m_toi (False, s_executing) e_success)
                  \<lparr>cs_toi_meta := 1, cs_toi_mode := m_replicating\<rparr>) \<and>
   fst (leave_toi (mock_env False rm_async False success success) 1
     ((mock_client s_exec m_toi (False, s_executing) e_success)
                  \<lparr>cs_toi_meta := 1, cs_toi_mode := m_replicating\<rparr>)) = Inr (Some 0) \<and>
   cs_mode (snd (leave_toi (mock_env False rm_async False success success) 1
     ((mock_client s_exec m_toi (False, s_executing) e_success)
                  \<lparr>cs_toi_meta := 1, cs_toi_mode := m_replicating\<rparr>))) = m_replicating \<and>
   enter_toi_ws_meta (mock_env False rm_async False success success)
     (mock_client s_exec m_high_priority (False, s_executing) e_success) 5 =
       (Inr 0, (mock_client s_exec m_toi (False, s_executing) e_success)
                  \<lparr>cs_toi_meta := 5, cs_toi_mode := m_high_priority\<rparr>) \<and>
   leave_toi (mock_env False rm_async False success success) 1
     ((mock_client s_exec m_toi (False, s_executing) e_success)
                  \<lparr>cs_toi_meta := 5, cs_toi_mode := m_high_priority\<rparr>) =
       (Inr None, mock_client s_exec m_high_priority (False, s_executing) e_success)"
proof -
  let ?E = "mock_env False rm_async False success success"
  let ?R = "mock_client s_exec m_replicating (False, s_executing) e_success"
  let ?H = "mock_client s_exec m_high_priority (False, s_executing) e_success"
  have r: "assert_holds ?E (cs_state ?R = s_exec) \<and> cs_mode ?R = m_replicating \<and>
          provider_enter_toi ?E (cs_id ?R) (0::nat) (0::nat) (cs_toi_meta ?R) 0 = (success, 1) \<and>
          assert_holds ?E (provider_leave_toi ?E (cs_id ?R) = success)"
    by (simp add: assert_holds_def mock_client_def mock_env_def)
  have h: "cs_mode ?H = m_high_priority"
    by (simp add: mock_client_def)
  have e: "ws_meta_init ?E = 0" "provider_leave_toi ?E 7 = success"
    by (simp_all add: mock_env_def)
  note a = toi_round_trip [where env = ?E and c = ?R and keys = 0 and buffer = 0 and flags = 0
      and meta = 1 and this_thread = 1, THEN conjunct1, rule_format, OF r]
  note b = toi_round_trip [where env = ?E and c = ?H and ws_meta = 5 and this_thread = 1,
      THEN conjunct2, rule_format, OF h]
  have "enter_toi ?E 1 ?R 0 0 0 =
       (Inr 0, (mock_client s_exec m_toi (False, s_executing) e_success)
                  \<lparr>cs_toi_meta := 1, cs_toi_mode := m_replicating\<rparr>) \<and>
   fst (leave_toi ?E 1
     ((mock_client s_exec m_toi (False, s_executing) e_success)
                  \<lparr>cs_toi_meta := 1, cs_toi_mode := m_replicating\<rparr>)) = Inr (Some 0) \<and>
   cs_mode (snd (leave_toi ?E 1
     ((mock_client s_exec m_toi (False, s_executing) e_success)
                  \<lparr>cs_toi_meta := 1, cs_toi_mode := m_replicating\<rparr>))) = m_replicating"
    using a by (simp add: Let_def mock_client_def e)
  moreover have "enter_toi_ws_meta ?E ?H 5 =
       (Inr 0, (mock_client s_exec m_toi (False, s_executing) e_success)
                  \<lparr>cs_toi_meta := 5, cs_toi_mode := m_high_priority\<rparr>) \<and>
   leave_toi ?E 1
     ((mock_client s_exec m_toi (False, s_executing) e_success)
                  \<lparr>cs_toi_meta := 5, cs_toi_mode := m_high_priority\<rparr>) =
       (Inr None, ?H)"
    using b by (simp add: Let_def mock_client_def e)
  ultimately show ?thesis by simp
qed

end
